theory Spec2Isabelle
  imports Main
begin

section \<open>Python values, exceptions and interpreter primitives\<close>

text \<open>
  The bot (\<^verbatim>\<open>src/bot/bot2.py\<close>) works on JSON-shaped Python values: request
  parameters, vendor responses, task and deal records. A dictionary is an association
  list in insertion order with string keys; \<^verbatim>\<open>d[k]\<close> and \<^verbatim>\<open>d.get(k)\<close> read the
  first entry of a key. A character of a string is a code point below 256; text with a
  code point above 255 is outside the model. A float is a value of an abstract type
  \<open>'f\<close>: the few float operations the code relies on are fields of \<open>py_prims\<close>, and
  every theorem holds for any choice of them.

  An exception is its class and its message. Message texts of the interpreter are
  rendered without their quotation marks, and the Russian literals of the source by
  short English ones; no property below depends on a message text.
\<close>

datatype exc_class =
  ValueError | TypeError | AttributeError | KeyError | OverflowError | PyException

datatype exc = Exc exc_class string

datatype 'f pyval =
    PNone
  | PBool bool
  | PInt int
  | PFloat 'f
  | PStr string
  | PList "'f pyval list"
  | PDict "(string \<times> 'f pyval) list"

record 'f py_prims =
  f_is_zero :: "'f \<Rightarrow> bool"
  f_trunc :: "'f \<Rightarrow> exc + int"
  f_add :: "'f \<Rightarrow> 'f \<Rightarrow> 'f"
  f_of_int :: "int \<Rightarrow> exc + 'f"
  py_repr :: "'f pyval \<Rightarrow> string"

fun type_name :: "'f pyval \<Rightarrow> string" where
  "type_name PNone = ''NoneType''"
| "type_name (PBool b) = ''bool''"
| "type_name (PInt n) = ''int''"
| "type_name (PFloat x) = ''float''"
| "type_name (PStr s) = ''str''"
| "type_name (PList xs) = ''list''"
| "type_name (PDict d) = ''dict''"

text \<open>Truth value of an object, as \<^verbatim>\<open>if x\<close>, \<^verbatim>\<open>not x\<close> and \<^verbatim>\<open>x or y\<close> test it.\<close>

fun truthy :: "'f py_prims \<Rightarrow> 'f pyval \<Rightarrow> bool" where
  "truthy pr PNone = False"
| "truthy pr (PBool b) = b"
| "truthy pr (PInt n) = (n \<noteq> 0)"
| "truthy pr (PFloat x) = (\<not> f_is_zero pr x)"
| "truthy pr (PStr s) = (s \<noteq> [])"
| "truthy pr (PList xs) = (xs \<noteq> [])"
| "truthy pr (PDict d) = (d \<noteq> [])"

text \<open>\<^verbatim>\<open>str(x)\<close>: a string is itself, anything else is printed by the interpreter.\<close>

definition py_str :: "'f py_prims \<Rightarrow> 'f pyval \<Rightarrow> string" where
  "py_str pr v = (case v of PStr s \<Rightarrow> s | _ \<Rightarrow> py_repr pr v)"

text \<open>\<^verbatim>\<open>sub in s\<close> on strings: \<open>sub\<close> occurs in \<open>s\<close> as a contiguous run.\<close>

fun str_contains :: "string \<Rightarrow> string \<Rightarrow> bool" where
  "str_contains sub [] = (sub = [])"
| "str_contains sub (c # cs) = (take (length sub) (c # cs) = sub \<or> str_contains sub cs)"

text \<open>\<^verbatim>\<open>obj.get(key, default)\<close>: only a dictionary has the method.\<close>

definition py_get :: "'f pyval \<Rightarrow> string \<Rightarrow> 'f pyval \<Rightarrow> exc + 'f pyval" where
  "py_get obj k dflt =
     (case obj of
        PDict d \<Rightarrow> Inr (case map_of d k of Some v \<Rightarrow> v | None \<Rightarrow> dflt)
      | _ \<Rightarrow> Inl (Exc AttributeError (type_name obj @ '' object has no attribute get'')))"

text \<open>\<^verbatim>\<open>key in obj\<close> for a string key: a key of a dictionary, an element of a list, a
  substring of a string; any other object is not iterable.\<close>

definition py_contains :: "string \<Rightarrow> 'f pyval \<Rightarrow> exc + bool" where
  "py_contains k obj =
     (case obj of
        PDict d \<Rightarrow> Inr (k \<in> set (map fst d))
      | PList xs \<Rightarrow> Inr (PStr k \<in> set xs)
      | PStr s \<Rightarrow> Inr (str_contains k s)
      | _ \<Rightarrow> Inl (Exc TypeError (''argument of type '' @ type_name obj @ '' is not iterable'')))"

text \<open>\<^verbatim>\<open>obj[key]\<close> for a string key.\<close>

definition py_getitem :: "'f pyval \<Rightarrow> string \<Rightarrow> exc + 'f pyval" where
  "py_getitem obj k =
     (case obj of
        PDict d \<Rightarrow> (case map_of d k of Some v \<Rightarrow> Inr v | None \<Rightarrow> Inl (Exc KeyError k))
      | PList xs \<Rightarrow> Inl (Exc TypeError ''list indices must be integers or slices, not str'')
      | PStr s \<Rightarrow> Inl (Exc TypeError ''string indices must be integers, not str'')
      | _ \<Rightarrow> Inl (Exc TypeError (type_name obj @ '' object is not subscriptable'')))"

text \<open>The elements a \<^verbatim>\<open>for\<close> loop visits: the items of a list, the keys of a
  dictionary, the characters of a string.\<close>

definition py_iter :: "'f pyval \<Rightarrow> exc + 'f pyval list" where
  "py_iter obj =
     (case obj of
        PList xs \<Rightarrow> Inr xs
      | PDict d \<Rightarrow> Inr (map (\<lambda>kv. PStr (fst kv)) d)
      | PStr s \<Rightarrow> Inr (map (\<lambda>c. PStr [c]) s)
      | _ \<Rightarrow> Inl (Exc TypeError (type_name obj @ '' object is not iterable'')))"




text \<open>A concrete choice of the primitives, for evaluating the functions on examples:
  floats are stood for by integers and print as the empty string.\<close>

definition int_prims :: "int py_prims" where
  "int_prims =
     \<lparr>f_is_zero = (\<lambda>x. x = 0), f_trunc = (\<lambda>x. Inr x), f_add = (\<lambda>x y. x + y),
      f_of_int = (\<lambda>n. Inr n), py_repr = (\<lambda>v. [])\<rparr>"

section \<open>Strings, integers and dictionaries\<close>

text \<open>Whitespace as \<^verbatim>\<open>str.strip()\<close> removes it: tab to carriage return, the four
  separators \<open>0x1C\<close> to \<open>0x1F\<close>, the space, and of the code points from 128 to 255 the
  next-line control \<open>0x85\<close> and the no-break space \<open>0xA0\<close>.\<close>

definition is_space :: "char \<Rightarrow> bool" where
  "is_space c =
     (let n = (of_char c :: nat)
      in (9 \<le> n \<and> n \<le> 13) \<or> (28 \<le> n \<and> n \<le> 32) \<or> n = 133 \<or> n = 160)"

definition str_lstrip :: "(char \<Rightarrow> bool) \<Rightarrow> string \<Rightarrow> string" where
  "str_lstrip P s = dropWhile P s"

definition str_rstrip :: "(char \<Rightarrow> bool) \<Rightarrow> string \<Rightarrow> string" where
  "str_rstrip P s = rev (dropWhile P (rev s))"

definition str_strip :: "(char \<Rightarrow> bool) \<Rightarrow> string \<Rightarrow> string" where
  "str_strip P s = str_rstrip P (str_lstrip P s)"

definition is_digit :: "char \<Rightarrow> bool" where
  "is_digit c = (let n = (of_char c :: nat) in 48 \<le> n \<and> n \<le> 57)"

definition digit_value :: "char \<Rightarrow> nat" where
  "digit_value c = of_char c - 48"

text \<open>The digits of an integer literal: single underscores may separate digits.\<close>

fun parse_digits :: "nat \<Rightarrow> string \<Rightarrow> nat option" where
  "parse_digits acc [] = Some acc"
| "parse_digits acc [c] = (if is_digit c then Some (10 * acc + digit_value c) else None)"
| "parse_digits acc (c # d # cs) =
     (if is_digit c then parse_digits (10 * acc + digit_value c) (d # cs)
      else if c = CHR ''_'' \<and> is_digit d then parse_digits (10 * acc + digit_value d) cs
      else None)"

text \<open>
  \<^verbatim>\<open>int(s)\<close> for a string: surrounding whitespace, an optional sign, decimal digits.
  The whitespace that \<^verbatim>\<open>int\<close> skips is narrower than that of \<^verbatim>\<open>strip\<close>: tab to carriage
  return and the space, and the two whitespace code points above 127, which the
  conversion turns into spaces first; a separator \<open>0x1C\<close> to \<open>0x1F\<close> makes the literal
  invalid. The only decimal digits below code point 256 are \<open>0\<close> to \<open>9\<close>. A literal of more
  than 4300 digits is refused (the interpreter's default limit; signs, underscores and
  whitespace are not counted).
\<close>

definition is_int_space :: "char \<Rightarrow> bool" where
  "is_int_space c =
     (let n = (of_char c :: nat) in (9 \<le> n \<and> n \<le> 13) \<or> n = 32 \<or> n = 133 \<or> n = 160)"

definition max_str_digits :: nat where
  "max_str_digits = 4300"

definition int_of_str :: "string \<Rightarrow> int option" where
  "int_of_str s =
     (let t = str_strip is_int_space s;
          neg = (t \<noteq> [] \<and> hd t = CHR ''-'');
          body = (if t \<noteq> [] \<and> (hd t = CHR ''-'' \<or> hd t = CHR ''+'') then tl t else t)
      in case body of
           [] \<Rightarrow> None
         | c # cs \<Rightarrow>
             (if is_digit c \<and> length (filter is_digit body) \<le> max_str_digits then
                map_option (\<lambda>n. if neg then - int n else int n) (parse_digits (digit_value c) cs)
              else None))"

text \<open>\<^verbatim>\<open>int(x)\<close>: a string is parsed, a float truncated by the interpreter,
  \<^verbatim>\<open>None\<close> and containers are a \<^verbatim>\<open>TypeError\<close>.\<close>

definition py_int :: "'f py_prims \<Rightarrow> 'f pyval \<Rightarrow> exc + int" where
  "py_int pr v =
     (case v of
        PStr s \<Rightarrow>
          (case int_of_str s of
             Some n \<Rightarrow> Inr n
           | None \<Rightarrow> Inl (Exc ValueError (''invalid literal for int() with base 10: '' @ s)))
      | PInt n \<Rightarrow> Inr n
      | PBool b \<Rightarrow> Inr (if b then 1 else 0)
      | PFloat x \<Rightarrow> f_trunc pr x
      | _ \<Rightarrow> Inl (Exc TypeError (''int() argument must be a string or a real number, not ''
                @ type_name v)))"

text \<open>\<^verbatim>\<open>d[k] = v\<close>: an existing key keeps its place, a new one goes last.
  \<^verbatim>\<open>d.update(other)\<close> stores the entries of \<open>other\<close> in their order.\<close>

fun dict_set :: "(string \<times> 'a) list \<Rightarrow> string \<Rightarrow> 'a \<Rightarrow> (string \<times> 'a) list" where
  "dict_set [] k v = [(k, v)]"
| "dict_set (e # d) k v = (if fst e = k then (k, v) # d else e # dict_set d k v)"

fun dict_update :: "(string \<times> 'a) list \<Rightarrow> (string \<times> 'a) list \<Rightarrow> (string \<times> 'a) list" where
  "dict_update d [] = d"
| "dict_update d (e # es) = dict_update (dict_set d (fst e) (snd e)) es"

definition exc_str :: "exc \<Rightarrow> string" where
  "exc_str e = (case e of Exc c m \<Rightarrow> m)"

text \<open>\<^verbatim>\<open>len(x)\<close>, which the log line of \<^verbatim>\<open>get_tasks\<close> evaluates.\<close>

definition py_len :: "'f pyval \<Rightarrow> exc + nat" where
  "py_len obj =
     (case obj of
        PList xs \<Rightarrow> Inr (length xs)
      | PDict d \<Rightarrow> Inr (length d)
      | PStr s \<Rightarrow> Inr (length s)
      | _ \<Rightarrow> Inl (Exc TypeError (''object of type '' @ type_name obj @ '' has no len()'')))"

lemma map_of_dict_set: "map_of (dict_set d k v) k' = (if k' = k then Some v else map_of d k')"
  by (induction d) auto

lemma map_of_dict_update:
  "map_of (dict_update d es) k = (case map_of (rev es) k of Some v \<Rightarrow> Some v | None \<Rightarrow> map_of d k)"
proof (induction es arbitrary: d)
  case Nil
  then show ?case by simp
next
  case (Cons e es)
  show ?case
    by (cases e) (auto simp: Cons.IH map_of_dict_set map_add_def split: option.splits)
qed

section \<open>The CRM client's request\<close>

text \<open>
  \<^verbatim>\<open>BitrixAPIClient._make_request\<close> posts the parameters to the method's URL and reads the
  JSON body. The network is an input: for a method and its parameters it says whether
  the transport fails, the call times out, the body is not JSON, or a JSON value
  arrives. A body with an \<^verbatim>\<open>error\<close> key raises.
\<close>

datatype 'f http_outcome =
    ClientError string
  | TimeoutError
  | JsonDecodeError string
  | JsonBody "'f pyval"

type_synonym 'f network = "string \<Rightarrow> 'f pyval \<Rightarrow> 'f http_outcome"

definition make_request ::
  "'f py_prims \<Rightarrow> 'f network \<Rightarrow> string \<Rightarrow> 'f pyval \<Rightarrow> exc + 'f pyval" where
  "make_request pr net method params =
     (case net method (if truthy pr params then params else PDict []) of
        ClientError s \<Rightarrow> Inl (Exc PyException (''Network error: '' @ s))
      | TimeoutError \<Rightarrow> Inl (Exc PyException ''Request timeout'')
      | JsonDecodeError s \<Rightarrow> Inl (Exc ValueError s)
      | JsonBody data \<Rightarrow>
          (case py_contains ''error'' data of
             Inl e \<Rightarrow> Inl e
           | Inr False \<Rightarrow> Inr data
           | Inr True \<Rightarrow>
               (case py_get data ''error'' (PStr ''Unknown error'') of
                  Inl e \<Rightarrow> Inl e
                | Inr d \<Rightarrow>
                    (case py_get data ''error_description'' d of
                       Inl e \<Rightarrow> Inl e
                     | Inr m \<Rightarrow> Inl (Exc PyException (''Bitrix24 API error: '' @ py_str pr m))))))"

text \<open>The client holds the user id of the webhook: \<^verbatim>\<open>None\<close> or a string. The guard
  \<^verbatim>\<open>if self.user_id\<close> passes for a non-empty string.\<close>

definition uid_set :: "string option \<Rightarrow> bool" where
  "uid_set user_id = (case user_id of Some u \<Rightarrow> u \<noteq> [] | None \<Rightarrow> False)"

definition dict_truthy :: "(string \<times> 'a) list option \<Rightarrow> bool" where
  "dict_truthy d = (case d of Some es \<Rightarrow> es \<noteq> [] | None \<Rightarrow> False)"

section \<open>Listing deals, leads and tasks\<close>

text \<open>
  \<^verbatim>\<open>get_deals\<close> (lines 290 to 304) and \<^verbatim>\<open>get_leads\<close> (lines 411 to 425) store the scope key
  into the caller's filter, after the caller's keys; \<^verbatim>\<open>get_tasks\<close> (lines 312 to 368)
  builds the scope first and then updates it with the caller's filter. The caller's
  filter is \<^verbatim>\<open>None\<close> or a dictionary.
\<close>

definition scoped_filter ::
  "string option \<Rightarrow> (string \<times> 'f pyval) list option \<Rightarrow> (string \<times> 'f pyval) list option" where
  "scoped_filter user_id filter_params =
     (if uid_set user_id then
        Some (dict_set (if dict_truthy filter_params then the filter_params else [])
                ''ASSIGNED_BY_ID'' (PStr (the user_id)))
      else filter_params)"

definition get_deals_params ::
  "string option \<Rightarrow> (string \<times> 'f pyval) list option \<Rightarrow> 'f pyval" where
  "get_deals_params user_id filter_params =
     (let fp = scoped_filter user_id filter_params;
          params = (if dict_truthy fp then [(''filter'', PDict (the fp))] else [])
      in PDict (dict_set params ''select''
           (PList (map PStr [''ID'', ''TITLE'', ''STAGE_ID'', ''OPPORTUNITY'',
                             ''ASSIGNED_BY_ID'', ''DATE_CREATE'']))))"

definition get_deals ::
  "'f py_prims \<Rightarrow> 'f network \<Rightarrow> string option \<Rightarrow> (string \<times> 'f pyval) list option
     \<Rightarrow> exc + 'f pyval" where
  "get_deals pr net user_id filter_params =
     make_request pr net ''crm.deal.list'' (get_deals_params user_id filter_params)"

definition get_leads_params ::
  "string option \<Rightarrow> (string \<times> 'f pyval) list option \<Rightarrow> 'f pyval" where
  "get_leads_params user_id filter_params =
     (let fp = scoped_filter user_id filter_params;
          params = (if dict_truthy fp then [(''filter'', PDict (the fp))] else [])
      in PDict (dict_set params ''select''
           (PList (map PStr [''ID'', ''TITLE'', ''STATUS_ID'', ''SOURCE_ID'',
                             ''ASSIGNED_BY_ID'', ''DATE_CREATE'']))))"

definition get_leads ::
  "'f py_prims \<Rightarrow> 'f network \<Rightarrow> string option \<Rightarrow> (string \<times> 'f pyval) list option
     \<Rightarrow> exc + 'f pyval" where
  "get_leads pr net user_id filter_params =
     make_request pr net ''crm.lead.list'' (get_leads_params user_id filter_params)"

text \<open>The request filter of \<^verbatim>\<open>get_tasks\<close>: \<^verbatim>\<open>None\<close> when the \<^verbatim>\<open>filter\<close> key is never
  stored. The scope value is \<^verbatim>\<open>int(self.user_id)\<close>, or the string itself when that
  raises \<^verbatim>\<open>ValueError\<close>.\<close>

definition get_tasks_filter ::
  "string option \<Rightarrow> (string \<times> 'f pyval) list option \<Rightarrow> (string \<times> 'f pyval) list option" where
  "get_tasks_filter user_id filter_params =
     (let scope =
            (if uid_set user_id then
               Some [(''RESPONSIBLE_ID'',
                      (case int_of_str (the user_id) of
                         Some n \<Rightarrow> PInt n
                       | None \<Rightarrow> PStr (the user_id)))]
             else None)
      in if dict_truthy filter_params then
           Some (dict_update (case scope of Some f \<Rightarrow> f | None \<Rightarrow> []) (the filter_params))
         else scope)"

definition get_tasks_params ::
  "string option \<Rightarrow> (string \<times> 'f pyval) list option \<Rightarrow> 'f pyval" where
  "get_tasks_params user_id filter_params =
     PDict ([(''order'', PDict [(''ID'', PStr ''DESC'')]),
             (''select'', PList (map PStr [''ID'', ''TITLE'', ''STATUS'', ''DEADLINE'', ''PRIORITY'',
                                           ''RESPONSIBLE_ID'', ''CREATED_DATE'', ''DESCRIPTION'']))]
            @ (case get_tasks_filter user_id filter_params of
                 Some f \<Rightarrow> [(''filter'', PDict f)]
               | None \<Rightarrow> []))"

text \<open>The normalisation of one task of the response: eight \<^verbatim>\<open>task.get\<close> calls, each
  of which raises on a task that is no dictionary.\<close>

fun get_fields :: "'f pyval \<Rightarrow> (string \<times> string) list \<Rightarrow> exc + (string \<times> 'f pyval) list" where
  "get_fields task [] = Inr []"
| "get_fields task (names # rest) =
     (case py_get task (snd names) PNone of
        Inl e \<Rightarrow> Inl e
      | Inr v \<Rightarrow>
          (case get_fields task rest of
             Inl e \<Rightarrow> Inl e
           | Inr fs \<Rightarrow> Inr ((fst names, v) # fs)))"

definition task_fields :: "(string \<times> string) list" where
  "task_fields =
     [(''ID'', ''id''), (''TITLE'', ''title''), (''STATUS'', ''status''), (''DEADLINE'', ''deadline''),
      (''PRIORITY'', ''priority''), (''RESPONSIBLE_ID'', ''responsibleId''),
      (''CREATED_DATE'', ''createdDate''), (''DESCRIPTION'', ''description'')]"

definition normalize_task :: "'f pyval \<Rightarrow> exc + 'f pyval" where
  "normalize_task task =
     (case get_fields task task_fields of Inl e \<Rightarrow> Inl e | Inr fs \<Rightarrow> Inr (PDict fs))"

fun normalize_tasks :: "'f pyval list \<Rightarrow> exc + 'f pyval list" where
  "normalize_tasks [] = Inr []"
| "normalize_tasks (task # rest) =
     (case normalize_task task of
        Inl e \<Rightarrow> Inl e
      | Inr n \<Rightarrow>
          (case normalize_tasks rest of
             Inl e \<Rightarrow> Inl e
           | Inr ns \<Rightarrow> Inr (n # ns)))"

text \<open>The body of the \<^verbatim>\<open>try\<close> block of \<^verbatim>\<open>get_tasks\<close> (lines 339 to 364).\<close>

definition get_tasks_try ::
  "'f py_prims \<Rightarrow> 'f network \<Rightarrow> string option \<Rightarrow> (string \<times> 'f pyval) list option
     \<Rightarrow> exc + 'f pyval" where
  "get_tasks_try pr net user_id filter_params =
     (case make_request pr net ''tasks.task.list'' (get_tasks_params user_id filter_params) of
        Inl e \<Rightarrow> Inl e
      | Inr result \<Rightarrow>
          (case py_contains ''result'' result of
             Inl e \<Rightarrow> Inl e
           | Inr False \<Rightarrow> Inr result
           | Inr True \<Rightarrow>
               (case py_getitem result ''result'' of
                  Inl e \<Rightarrow> Inl e
                | Inr r \<Rightarrow>
                    (case py_get r ''tasks'' (PList []) of
                       Inl e \<Rightarrow> Inl e
                     | Inr tasks \<Rightarrow>
                         (case py_len tasks of
                            Inl e \<Rightarrow> Inl e
                          | Inr n \<Rightarrow>
                              (case py_iter tasks of
                                 Inl e \<Rightarrow> Inl e
                               | Inr ts \<Rightarrow>
                                   (case normalize_tasks ts of
                                      Inl e \<Rightarrow> Inl e
                                    | Inr ns \<Rightarrow> Inr (PDict [(''tasks'', PList ns)]))))))))"

text \<open>\<^verbatim>\<open>get_tasks\<close>: \<^verbatim>\<open>except Exception\<close> turns whatever the block raises into a
  dictionary.\<close>

definition get_tasks ::
  "'f py_prims \<Rightarrow> 'f network \<Rightarrow> string option \<Rightarrow> (string \<times> 'f pyval) list option
     \<Rightarrow> exc + 'f pyval" where
  "get_tasks pr net user_id filter_params =
     (case get_tasks_try pr net user_id filter_params of
        Inl e \<Rightarrow> Inr (PDict [(''error'', PStr (exc_str e)), (''tasks'', PList [])])
      | Inr v \<Rightarrow> Inr v)"

lemma map_of_rev_distinct:
  "distinct (map fst xs) \<Longrightarrow> map_of (rev xs) k = map_of xs k"
proof (induction xs)
  case Nil
  then show ?case by simp
next
  case (Cons x xs)
  then have ih: "map_of (rev xs) k = map_of xs k" and fresh: "fst x \<notin> fst ` set xs"
    by simp_all
  from fresh have "map_of xs (fst x) = None"
    by (simp add: map_of_eq_None_iff)
  with ih show ?case
    by (cases x) (auto simp: map_add_def split: option.splits)
qed

text \<open>With a user id on the client, \<^verbatim>\<open>get_deals\<close> and \<^verbatim>\<open>get_leads\<close> send a filter whose
  scope key is that id, and every other key is the caller's.\<close>

lemma map_of_scoped_filter:
  assumes "uid_set user_id"
  shows "\<exists>f. scoped_filter user_id filter_params = Some f \<and>
             map_of f ''ASSIGNED_BY_ID'' = Some (PStr (the user_id)) \<and>
             (\<forall>k. k \<noteq> ''ASSIGNED_BY_ID'' \<longrightarrow>
                  map_of f k = (case filter_params of Some d \<Rightarrow> map_of d k | None \<Rightarrow> None))"
  using assms
  by (cases filter_params)
     (auto simp: scoped_filter_def dict_truthy_def map_of_dict_set)

text \<open>In \<^verbatim>\<open>get_tasks\<close> a caller's \<^verbatim>\<open>RESPONSIBLE_ID\<close> is the one that is sent.\<close>

lemma get_tasks_filter_caller_wins:
  assumes "map_of d ''RESPONSIBLE_ID'' = Some v" and "distinct (map fst d)"
  shows "\<exists>f. get_tasks_filter user_id (Some d) = Some f \<and> map_of f ''RESPONSIBLE_ID'' = Some v"
proof -
  from assms(1) have ne: "d \<noteq> []" by auto
  from assms have "map_of (rev d) ''RESPONSIBLE_ID'' = Some v"
    by (simp add: map_of_rev_distinct)
  then show ?thesis
    using ne by (simp add: get_tasks_filter_def dict_truthy_def map_of_dict_update)
qed

text \<open>
  Claim C3. Every listing operation scopes its request by the user id of the webhook, and
  the caller's filter keys never replace the scope key. The code of \<^verbatim>\<open>get_tasks\<close> does
  otherwise: for the webhook user \<open>10\<close> and the caller's filter
  \<^verbatim>\<open>{'RESPONSIBLE_ID': 99}\<close> the request filter is the caller's, while without a caller's
  filter it is the scope, and \<^verbatim>\<open>get_deals\<close> and \<^verbatim>\<open>get_leads\<close> overwrite a caller's
  \<^verbatim>\<open>ASSIGNED_BY_ID\<close>.
\<close>

theorem get_tasks_scope_replaced:
  "get_tasks_filter (Some ''10'') (Some [(''RESPONSIBLE_ID'', PInt 99)])
     = Some [(''RESPONSIBLE_ID'', PInt 99)]
   \<and> get_tasks_filter (Some ''10'') None = Some [(''RESPONSIBLE_ID'', PInt 10)]
   \<and> scoped_filter (Some ''10'') (Some [(''ASSIGNED_BY_ID'', PInt 99)])
     = Some [(''ASSIGNED_BY_ID'', PStr ''10'')]"
  by (simp add: get_tasks_filter_def scoped_filter_def uid_set_def dict_truthy_def
      int_of_str_def str_strip_def str_lstrip_def str_rstrip_def is_int_space_def max_str_digits_def
      is_digit_def
      digit_value_def)

text \<open>
  Claim C10. \<^verbatim>\<open>get_tasks\<close> never raises: it returns a value for every client, filter and
  behaviour of the network, and when its request or the normalisation raises, the value
  is the dictionary with the \<^verbatim>\<open>error\<close> text and \<^verbatim>\<open>tasks\<close> bound to the empty list.
  \<^verbatim>\<open>get_deals\<close> and \<^verbatim>\<open>get_leads\<close> raise what their request raises.
\<close>

theorem get_tasks_never_raises:
  "(\<exists>v. get_tasks pr net user_id filter_params = Inr v)
   \<and> (\<forall>e. get_tasks_try pr net user_id filter_params = Inl e \<longrightarrow>
          get_tasks pr net user_id filter_params
            = Inr (PDict [(''error'', PStr (exc_str e)), (''tasks'', PList [])]))
   \<and> (\<forall>e. make_request pr net ''tasks.task.list'' (get_tasks_params user_id filter_params) = Inl e
          \<longrightarrow> get_tasks pr net user_id filter_params
            = Inr (PDict [(''error'', PStr (exc_str e)), (''tasks'', PList [])]))
   \<and> (\<forall>e. make_request pr net ''crm.deal.list'' (get_deals_params user_id filter_params) = Inl e
          \<longrightarrow> get_deals pr net user_id filter_params = Inl e)
   \<and> (\<forall>e. make_request pr net ''crm.lead.list'' (get_leads_params user_id filter_params) = Inl e
          \<longrightarrow> get_leads pr net user_id filter_params = Inl e)"
  by (simp add: get_tasks_def get_tasks_try_def get_deals_def get_leads_def split: sum.split)

text \<open>A network that times out, and a response whose task list holds a number.\<close>

theorem get_tasks_never_raises_witness:
  "get_tasks_try int_prims (\<lambda>m p. TimeoutError) (Some ''10'') None
     = Inl (Exc PyException ''Request timeout'')
   \<and> get_tasks int_prims (\<lambda>m p. TimeoutError) (Some ''10'') None
     = Inr (PDict [(''error'', PStr ''Request timeout''), (''tasks'', PList [])])
   \<and> get_deals int_prims (\<lambda>m p. TimeoutError) (Some ''10'') None
     = Inl (Exc PyException ''Request timeout'')
   \<and> get_leads int_prims (\<lambda>m p. TimeoutError) (Some ''10'') None
     = Inl (Exc PyException ''Request timeout'')
   \<and> get_tasks int_prims
       (\<lambda>m p. JsonBody (PDict [(''result'', PDict [(''tasks'', PList [PInt 1])])])) (Some ''10'') None
     = Inr (PDict [(''error'', PStr ''int object has no attribute get''), (''tasks'', PList [])])"
proof -
  have req: "make_request int_prims (\<lambda>m p. TimeoutError) m ps = Inl (Exc PyException ''Request timeout'')"
    for m and ps :: "int pyval"
    by (simp add: make_request_def)
  have tmo: "get_tasks_try int_prims (\<lambda>m p. TimeoutError) (Some ''10'') None
               = Inl (Exc PyException ''Request timeout'')"
    by (simp add: get_tasks_try_def req)
  have bad: "get_tasks_try int_prims
       (\<lambda>m p. JsonBody (PDict [(''result'', PDict [(''tasks'', PList [PInt 1])])])) (Some ''10'') None
     = Inl (Exc AttributeError ''int object has no attribute get'')"
    by (simp add: get_tasks_try_def make_request_def py_contains_def py_getitem_def py_get_def
        py_len_def py_iter_def normalize_task_def task_fields_def get_tasks_params_def)
  note inst = get_tasks_never_raises [of int_prims _ "Some ''10''" None]
  show ?thesis
    using inst [of "\<lambda>m p. TimeoutError"] tmo req
      inst [of "\<lambda>m p. JsonBody (PDict [(''result'', PDict [(''tasks'', PList [PInt 1])])])"] bad
    by (simp add: exc_str_def)
qed

section \<open>Sum of the deals of a period\<close>






















section \<open>Task statistics\<close>

text \<open>
  \<^verbatim>\<open>get_task_statistics\<close> (lines 546 to 635) fetches the tasks of the webhook's user with
  \<^verbatim>\<open>get_tasks\<close> and folds them into eight counters. The deadline test parses the first
  ten characters of the deadline with \<^verbatim>\<open>datetime.strptime(..., '%Y-%m-%d')\<close> and compares
  the date, at midnight, with the clock. A moment is its year, month, day and the
  microseconds since midnight; the clock is an input.
\<close>

type_synonym moment = "nat \<times> nat \<times> nat \<times> nat"

definition moment_less :: "moment \<Rightarrow> moment \<Rightarrow> bool" where
  "moment_less a b =
     (case a of (y1, m1, d1, u1) \<Rightarrow> case b of (y2, m2, d2, u2) \<Rightarrow>
        y1 < y2 \<or> (y1 = y2 \<and> (m1 < m2 \<or> (m1 = m2 \<and> (d1 < d2 \<or> (d1 = d2 \<and> u1 < u2))))))"

definition is_leap :: "nat \<Rightarrow> bool" where
  "is_leap y = (y mod 4 = 0 \<and> (y mod 100 \<noteq> 0 \<or> y mod 400 = 0))"

definition days_in_month :: "nat \<Rightarrow> nat \<Rightarrow> nat" where
  "days_in_month y m =
     (if m = 2 then (if is_leap y then 29 else 28)
      else if m = 4 \<or> m = 6 \<or> m = 9 \<or> m = 11 then 30 else 31)"

text \<open>The directives as the pattern of \<^verbatim>\<open>strptime\<close> matches them: \<^verbatim>\<open>%Y\<close> is four digits;
  \<^verbatim>\<open>%m\<close> is \<^verbatim>\<open>1[0-2]|0[1-9]|[1-9]\<close> and must be followed by the dash; \<^verbatim>\<open>%d\<close> is
  \<^verbatim>\<open>3[01]|[12]\d|0[1-9]|[1-9]| [1-9]\<close>, the first alternative that matches.\<close>

definition nonzero_digit :: "char \<Rightarrow> bool" where
  "nonzero_digit c = (is_digit c \<and> c \<noteq> CHR ''0'')"

definition match_year :: "string \<Rightarrow> (nat \<times> string) option" where
  "match_year s =
     (case s of
        a # b # c # d # r \<Rightarrow>
          (if is_digit a \<and> is_digit b \<and> is_digit c \<and> is_digit d
           then Some (1000 * digit_value a + 100 * digit_value b + 10 * digit_value c
                      + digit_value d, r)
           else None)
      | _ \<Rightarrow> None)"

definition match_month :: "string \<Rightarrow> (nat \<times> string) option" where
  "match_month s =
     (case s of
        a # b # r \<Rightarrow>
          (if a = CHR ''1'' \<and> (b = CHR ''0'' \<or> b = CHR ''1'' \<or> b = CHR ''2'')
              \<and> r \<noteq> [] \<and> hd r = CHR ''-''
           then Some (10 + digit_value b, tl r)
           else if a = CHR ''0'' \<and> nonzero_digit b \<and> r \<noteq> [] \<and> hd r = CHR ''-''
           then Some (digit_value b, tl r)
           else if nonzero_digit a \<and> b = CHR ''-'' then Some (digit_value a, r)
           else None)
      | _ \<Rightarrow> None)"

definition match_day :: "string \<Rightarrow> (nat \<times> string) option" where
  "match_day s =
     (case s of
        [] \<Rightarrow> None
      | [a] \<Rightarrow> (if nonzero_digit a then Some (digit_value a, []) else None)
      | a # b # r \<Rightarrow>
          (if a = CHR ''3'' \<and> (b = CHR ''0'' \<or> b = CHR ''1'') then Some (30 + digit_value b, r)
           else if (a = CHR ''1'' \<or> a = CHR ''2'') \<and> is_digit b
           then Some (10 * digit_value a + digit_value b, r)
           else if a = CHR ''0'' \<and> nonzero_digit b then Some (digit_value b, r)
           else if nonzero_digit a then Some (digit_value a, b # r)
           else if a = CHR '' '' \<and> nonzero_digit b then Some (digit_value b, r)
           else None))"

definition strptime_ymd :: "string \<Rightarrow> exc + (nat \<times> nat \<times> nat)" where
  "strptime_ymd s =
     (case match_year s of
        None \<Rightarrow> Inl (Exc ValueError ''time data does not match format'')
      | Some (y, r1) \<Rightarrow>
          (if r1 = [] \<or> hd r1 \<noteq> CHR ''-'' then Inl (Exc ValueError ''time data does not match format'')
           else case match_month (tl r1) of
             None \<Rightarrow> Inl (Exc ValueError ''time data does not match format'')
           | Some (m, r2) \<Rightarrow>
               (case match_day r2 of
                  None \<Rightarrow> Inl (Exc ValueError ''time data does not match format'')
                | Some (d, r3) \<Rightarrow>
                    (if r3 \<noteq> [] then Inl (Exc ValueError ''unconverted data remains'')
                     else if y = 0 then Inl (Exc ValueError ''year 0 is out of range'')
                     else if days_in_month y m < d
                     then Inl (Exc ValueError ''day is out of range for month'')
                     else Inr (y, m, d)))))"

text \<open>Lines 586 to 594: a false deadline is never overdue; of a true one the first ten
  characters are parsed (only a string can be), and whatever that raises leaves the flag
  false.\<close>

definition deadline_overdue :: "'f py_prims \<Rightarrow> moment \<Rightarrow> 'f pyval \<Rightarrow> 'f pyval \<Rightarrow> bool" where
  "deadline_overdue pr now deadline closed_date =
     (if truthy pr deadline then
        (case (case deadline of
                 PStr s \<Rightarrow> strptime_ymd (take 10 s)
               | _ \<Rightarrow> Inl (Exc TypeError ''strptime() argument 1 must be str'')) of
           Inr d \<Rightarrow>
             moment_less (fst d, fst (snd d), snd (snd d), 0) now \<and> \<not> truthy pr closed_date
         | Inl e \<Rightarrow> False)
      else False)"

record task_stats =
  total_tasks :: nat
  completed :: nat
  in_progress :: nat
  overdue :: nat
  pending :: nat
  deferred :: nat
  awaiting_control :: nat
  supposedly_completed :: nat

definition zero_stats :: task_stats where
  "zero_stats =
     \<lparr>total_tasks = 0, completed = 0, in_progress = 0, overdue = 0, pending = 0, deferred = 0,
      awaiting_control = 0, supposedly_completed = 0\<rparr>"

text \<open>Lines 574 to 578: the status is \<^verbatim>\<open>int(task.get('STATUS', '1'))\<close>, and \<open>1\<close> when
  that raises \<^verbatim>\<open>ValueError\<close> or \<^verbatim>\<open>TypeError\<close>; any other exception leaves the function.\<close>

definition task_status :: "'f py_prims \<Rightarrow> 'f pyval \<Rightarrow> exc + int" where
  "task_status pr task =
     (case py_get task ''STATUS'' (PStr ''1'') of
        Inl e \<Rightarrow> Inl e
      | Inr status_str \<Rightarrow>
          (case py_int pr status_str of
             Inr n \<Rightarrow> Inr n
           | Inl (Exc c m) \<Rightarrow>
               (if c = ValueError \<or> c = TypeError then Inr 1 else Inl (Exc c m))))"

text \<open>Lines 605 to 632, the chain of comparisons in the order of the source.\<close>

definition classify :: "int \<Rightarrow> bool \<Rightarrow> task_stats \<Rightarrow> task_stats" where
  "classify status is_overdue stats =
     (let late = (\<lambda>s. if is_overdue then s\<lparr>overdue := overdue s + 1\<rparr> else s) in
      if status = 5 then stats\<lparr>completed := completed stats + 1\<rparr>
      else if status = 3 then late (stats\<lparr>in_progress := in_progress stats + 1\<rparr>)
      else if status = 2 then
        (if is_overdue then stats\<lparr>overdue := overdue stats + 1\<rparr>
         else stats\<lparr>pending := pending stats + 1\<rparr>)
      else if status = 6 then late (stats\<lparr>deferred := deferred stats + 1\<rparr>)
      else if status = 4 then late (stats\<lparr>awaiting_control := awaiting_control stats + 1\<rparr>)
      else if status = 1 then late (stats\<lparr>pending := pending stats + 1\<rparr>)
      else late (stats\<lparr>pending := pending stats + 1\<rparr>))"

definition stats_step ::
  "'f py_prims \<Rightarrow> moment \<Rightarrow> task_stats \<Rightarrow> 'f pyval \<Rightarrow> exc + task_stats" where
  "stats_step pr now stats task =
     (case task_status pr task of
        Inl e \<Rightarrow> Inl e
      | Inr status \<Rightarrow>
          (case py_get task ''closedDate'' PNone of
             Inl e \<Rightarrow> Inl e
           | Inr closed_date \<Rightarrow>
               (case py_get task ''deadline'' PNone of
                  Inl e \<Rightarrow> Inl e
                | Inr deadline \<Rightarrow>
                    Inr (classify status (deadline_overdue pr now deadline closed_date)
                           (stats\<lparr>total_tasks := total_tasks stats + 1\<rparr>)))))"

fun stats_loop ::
  "'f py_prims \<Rightarrow> moment \<Rightarrow> task_stats \<Rightarrow> 'f pyval list \<Rightarrow> exc + task_stats" where
  "stats_loop pr now stats [] = Inr stats"
| "stats_loop pr now stats (task # rest) =
     (case stats_step pr now stats task of
        Inl e \<Rightarrow> Inl e
      | Inr stats' \<Rightarrow> stats_loop pr now stats' rest)"

definition statistics_filter :: "string option \<Rightarrow> (string \<times> 'f pyval) list option" where
  "statistics_filter user_id =
     Some (if uid_set user_id then [(''RESPONSIBLE_ID'', PStr (the user_id))] else [])"

definition get_task_statistics ::
  "'f py_prims \<Rightarrow> 'f network \<Rightarrow> moment \<Rightarrow> string option \<Rightarrow> exc + task_stats" where
  "get_task_statistics pr net now user_id =
     (case get_tasks pr net user_id (statistics_filter user_id) of
        Inl e \<Rightarrow> Inl e
      | Inr tasks \<Rightarrow>
          (case py_contains ''tasks'' tasks of
             Inl e \<Rightarrow> Inl e
           | Inr False \<Rightarrow> Inr zero_stats
           | Inr True \<Rightarrow>
               (case py_getitem tasks ''tasks'' of
                  Inl e \<Rightarrow> Inl e
                | Inr ts \<Rightarrow>
                    (case py_iter ts of
                       Inl e \<Rightarrow> Inl e
                     | Inr l \<Rightarrow> stats_loop pr now zero_stats l))))"

text \<open>
  A record that \<^verbatim>\<open>get_tasks\<close> returns is the normalisation of a task of the response: the
  eight upper-case keys, each bound to the value of its lower-case key, or to \<^verbatim>\<open>None\<close>.
\<close>

definition normalized :: "(string \<times> 'f pyval) list \<Rightarrow> (string \<times> 'f pyval) list" where
  "normalized raw =
     map (\<lambda>names. (fst names, case map_of raw (snd names) of Some v \<Rightarrow> v | None \<Rightarrow> PNone))
       task_fields"

lemma get_fields_dict:
  "get_fields (PDict raw) names =
     Inr (map (\<lambda>n. (fst n, case map_of raw (snd n) of Some v \<Rightarrow> v | None \<Rightarrow> PNone)) names)"
  by (induction names) (simp_all add: py_get_def)

lemma normalize_task_dict: "normalize_task (PDict raw) = Inr (PDict (normalized raw))"
  by (simp add: normalize_task_def normalized_def get_fields_dict)

lemma normalize_tasks_dicts:
  "normalize_tasks (map PDict raws) = Inr (map (\<lambda>raw. PDict (normalized raw)) raws)"
  by (induction raws) (simp_all add: normalize_task_dict)

text \<open>The statistics read the keys \<^verbatim>\<open>deadline\<close> and \<^verbatim>\<open>closedDate\<close>; a normalised
  record has neither, so its overdue flag stays false.\<close>

lemma normalized_no_deadline:
  "map_of (normalized raw) ''deadline'' = None" "map_of (normalized raw) ''closedDate'' = None"
  by (simp_all add: normalized_def task_fields_def)

lemma get_tasks_response:
  assumes "net ''tasks.task.list'' (get_tasks_params user_id fp) = JsonBody (PDict resp)"
    and "''error'' \<notin> fst ` set resp"
    and "map_of resp ''result'' = Some (PDict r)"
    and "map_of r ''tasks'' = Some (PList (map PDict raws))"
  shows "get_tasks pr net user_id fp
           = Inr (PDict [(''tasks'', PList (map (\<lambda>raw. PDict (normalized raw)) raws))])"
proof -
  have req: "make_request pr net ''tasks.task.list'' (get_tasks_params user_id fp)
               = Inr (PDict resp)"
    using assms(1,2) by (simp add: make_request_def get_tasks_params_def py_contains_def)
  have key: "''result'' \<in> fst ` set resp"
    using assms(3) by (metis domI dom_map_of_conv_image_fst)
  show ?thesis
    using req key assms(3,4)
    by (simp add: get_tasks_def get_tasks_try_def py_contains_def py_getitem_def py_get_def
        py_len_def py_iter_def normalize_tasks_dicts)
qed

lemma get_task_statistics_response:
  assumes "net ''tasks.task.list'' (get_tasks_params user_id (statistics_filter user_id))
             = JsonBody (PDict resp)"
    and "''error'' \<notin> fst ` set resp"
    and "map_of resp ''result'' = Some (PDict r)"
    and "map_of r ''tasks'' = Some (PList (map PDict raws))"
  shows "get_task_statistics pr net now user_id
           = stats_loop pr now zero_stats (map (\<lambda>raw. PDict (normalized raw)) raws)"
proof -
  have "get_tasks pr net user_id (statistics_filter user_id)
          = Inr (PDict [(''tasks'', PList (map (\<lambda>raw. PDict (normalized raw)) raws))])"
    using assms by (rule get_tasks_response)
  then show ?thesis
    by (simp add: get_task_statistics_def py_contains_def py_getitem_def py_iter_def)
qed

text \<open>
  The status code of a task record as the vendor sends it, the string of a digit, or as
  an integer; a record whose code is one of \<open>1\<close> to \<open>7\<close>; and the overdue flag that
  lines 581 to 594 compute from the record.
\<close>

definition status_code :: "(string \<times> 'f pyval) list \<Rightarrow> int option" where
  "status_code task =
     (case map_of task ''STATUS'' of
        Some (PInt n) \<Rightarrow> Some n
      | Some (PStr s) \<Rightarrow>
          (if s \<in> set [''1'', ''2'', ''3'', ''4'', ''5'', ''6'', ''7'']
           then Some (int (digit_value (hd s))) else None)
      | _ \<Rightarrow> None)"

definition known_status :: "(string \<times> 'f pyval) list \<Rightarrow> bool" where
  "known_status task = (case status_code task of Some n \<Rightarrow> 1 \<le> n \<and> n \<le> 7 | None \<Rightarrow> False)"

definition status_is :: "int \<Rightarrow> (string \<times> 'f pyval) list \<Rightarrow> bool" where
  "status_is n task = (status_code task = Some n)"

definition field_or_none :: "(string \<times> 'f pyval) list \<Rightarrow> string \<Rightarrow> 'f pyval" where
  "field_or_none task k = (case map_of task k of Some v \<Rightarrow> v | None \<Rightarrow> PNone)"

definition flagged :: "'f py_prims \<Rightarrow> moment \<Rightarrow> (string \<times> 'f pyval) list \<Rightarrow> bool" where
  "flagged pr now task =
     deadline_overdue pr now (field_or_none task ''deadline'') (field_or_none task ''closedDate'')"

definition count_tasks :: "('a \<Rightarrow> bool) \<Rightarrow> 'a list \<Rightarrow> nat" where
  "count_tasks P tasks = length (filter P tasks)"

lemma count_tasks_Cons:
  "count_tasks P (t # ts) = (if P t then 1 else 0) + count_tasks P ts"
  by (simp add: count_tasks_def)

lemma int_of_str_status:
  "s \<in> set [''1'', ''2'', ''3'', ''4'', ''5'', ''6'', ''7''] \<Longrightarrow>
   int_of_str s = Some (int (digit_value (hd s)))"
  by (auto simp: int_of_str_def str_strip_def str_lstrip_def str_rstrip_def is_int_space_def
      max_str_digits_def is_digit_def digit_value_def)

lemma task_status_known:
  assumes "status_code task = Some n" and "1 \<le> n" and "n \<le> 7"
  shows "task_status pr (PDict task) = Inr n"
proof (cases "map_of task ''STATUS''")
  case None
  with assms(1) show ?thesis by (simp add: status_code_def)
next
  case (Some v)
  show ?thesis
  proof (cases v)
    case (PInt k)
    with Some assms(1) show ?thesis
      by (simp add: status_code_def task_status_def py_get_def py_int_def)
  next
    case (PStr s)
    with Some assms(1) have mem: "s \<in> set [''1'', ''2'', ''3'', ''4'', ''5'', ''6'', ''7'']"
      and n: "n = int (digit_value (hd s))"
      by (simp_all add: status_code_def split: if_splits)
    from int_of_str_status [OF mem] n Some PStr show ?thesis
      by (simp add: task_status_def py_get_def py_int_def)
  qed (use Some assms(1) in \<open>simp_all add: status_code_def\<close>)
qed

lemma stats_step_known:
  "task_status pr (PDict task) = Inr n \<Longrightarrow>
   stats_step pr now s (PDict task)
     = Inr (classify n (flagged pr now task) (s\<lparr>total_tasks := total_tasks s + 1\<rparr>))"
  by (simp add: stats_step_def py_get_def flagged_def field_or_none_def)

lemma classify_counts:
  assumes "1 \<le> n" and "n \<le> 7"
  shows "total_tasks (classify n f s) = total_tasks s"
    and "completed (classify n f s) = completed s + (if n = 5 then 1 else 0)"
    and "in_progress (classify n f s) = in_progress s + (if n = 3 then 1 else 0)"
    and "deferred (classify n f s) = deferred s + (if n = 6 then 1 else 0)"
    and "awaiting_control (classify n f s) = awaiting_control s + (if n = 4 then 1 else 0)"
    and "pending (classify n f s)
           = pending s + (if n = 1 \<or> n = 7 \<or> (n = 2 \<and> \<not> f) then 1 else 0)"
    and "overdue (classify n f s) = overdue s + (if f \<and> n \<noteq> 5 then 1 else 0)"
    and "supposedly_completed (classify n f s) = supposedly_completed s"
  using assms by (auto simp: classify_def)

text \<open>What the loop adds to each counter, for records of known status.\<close>

lemma stats_loop_counts:
  assumes "list_all known_status tasks"
  shows "\<exists>s'. stats_loop pr now s (map PDict tasks) = Inr s'
          \<and> total_tasks s' = total_tasks s + length tasks
          \<and> completed s' = completed s + count_tasks (status_is 5) tasks
          \<and> in_progress s' = in_progress s + count_tasks (status_is 3) tasks
          \<and> deferred s' = deferred s + count_tasks (status_is 6) tasks
          \<and> awaiting_control s' = awaiting_control s + count_tasks (status_is 4) tasks
          \<and> pending s' = pending s
               + count_tasks (\<lambda>t. status_is 1 t \<or> status_is 7 t
                                   \<or> (status_is 2 t \<and> \<not> flagged pr now t)) tasks
          \<and> overdue s' = overdue s
               + count_tasks (\<lambda>t. flagged pr now t \<and> \<not> status_is 5 t) tasks
          \<and> supposedly_completed s' = supposedly_completed s"
  using assms
proof (induction tasks arbitrary: s)
  case Nil
  then show ?case by (simp add: count_tasks_def)
next
  case (Cons t ts)
  from Cons.prems obtain n where code: "status_code t = Some n" and lo: "1 \<le> n" and hi: "n \<le> 7"
    by (auto simp: known_status_def split: option.splits)
  from Cons.prems have rest: "list_all known_status ts"
    by simp
  have st: "task_status pr (PDict t) = Inr n"
    using code lo hi by (rule task_status_known)
  let ?s1 = "classify n (flagged pr now t) (s\<lparr>total_tasks := total_tasks s + 1\<rparr>)"
  from Cons.IH [OF rest, of ?s1] obtain s' where
    loop: "stats_loop pr now ?s1 (map PDict ts) = Inr s'"
    and t: "total_tasks s' = total_tasks ?s1 + length ts"
    and c: "completed s' = completed ?s1 + count_tasks (status_is 5) ts"
    and i: "in_progress s' = in_progress ?s1 + count_tasks (status_is 3) ts"
    and d: "deferred s' = deferred ?s1 + count_tasks (status_is 6) ts"
    and a: "awaiting_control s' = awaiting_control ?s1 + count_tasks (status_is 4) ts"
    and p: "pending s' = pending ?s1
               + count_tasks (\<lambda>t. status_is 1 t \<or> status_is 7 t
                                   \<or> (status_is 2 t \<and> \<not> flagged pr now t)) ts"
    and ov: "overdue s' = overdue ?s1
               + count_tasks (\<lambda>t. flagged pr now t \<and> \<not> status_is 5 t) ts"
    and sc: "supposedly_completed s' = supposedly_completed ?s1"
    by blast
  have run: "stats_loop pr now s (map PDict (t # ts)) = Inr s'"
    using loop by (simp add: stats_step_known [OF st])
  have sk: "status_is k t = (n = k)" for k
    by (auto simp: status_is_def code)
  show ?case
    unfolding run
    using t c i d a p ov sc
    by (simp add: classify_counts [OF lo hi] count_tasks_Cons sk)
qed

text \<open>Every record of known status is in one of the five buckets, or has status \<open>2\<close> and
  is flagged.\<close>

lemma count_tasks_partition:
  assumes "list_all known_status tasks"
  shows "length tasks =
           count_tasks (status_is 5) tasks + count_tasks (status_is 3) tasks
           + count_tasks (\<lambda>t. status_is 1 t \<or> status_is 7 t
                               \<or> (status_is 2 t \<and> \<not> flagged pr now t)) tasks
           + count_tasks (status_is 6) tasks + count_tasks (status_is 4) tasks
           + count_tasks (\<lambda>t. status_is 2 t \<and> flagged pr now t) tasks"
  using assms
proof (induction tasks)
  case Nil
  then show ?case by (simp add: count_tasks_def)
next
  case (Cons t ts)
  from Cons.prems obtain n where code: "status_code t = Some n" and lo: "1 \<le> n" and hi: "n \<le> 7"
    by (auto simp: known_status_def split: option.splits)
  from lo hi have "n = 1 \<or> n = 2 \<or> n = 3 \<or> n = 4 \<or> n = 5 \<or> n = 6 \<or> n = 7"
    by arith
  moreover have sk: "status_is k t = (n = k)" for k
    by (auto simp: status_is_def code)
  ultimately show ?case
    using Cons by (auto simp: count_tasks_Cons)
qed

text \<open>A normalised record is never flagged.\<close>

lemma normalized_not_flagged: "\<not> flagged pr now (normalized raw)"
  by (simp add: flagged_def field_or_none_def normalized_no_deadline deadline_overdue_def)

text \<open>A response that carries the given tasks under \<^verbatim>\<open>result\<close>, whatever the request; a
  response that carries them at the top, which \<^verbatim>\<open>get_tasks\<close> returns as it is (line
  364); the task of the specification's scenario, with a status.\<close>

definition tasks_response :: "(string \<times> 'f pyval) list list \<Rightarrow> 'f network" where
  "tasks_response raws =
     (\<lambda>method params. JsonBody (PDict [(''result'', PDict [(''tasks'', PList (map PDict raws))])]))"

definition bare_response :: "(string \<times> 'f pyval) list list \<Rightarrow> 'f network" where
  "bare_response tasks = (\<lambda>method params. JsonBody (PDict [(''tasks'', PList (map PDict tasks))]))"

definition fixture_task :: "string \<Rightarrow> (string \<times> int pyval) list" where
  "fixture_task status =
     [(''id'', PStr ''1''), (''status'', PStr status),
      (''deadline'', PStr ''2020-01-01T00:00:00+03:00'')]"

definition fixture_tasks :: "(string \<times> int pyval) list list" where
  "fixture_tasks = map fixture_task [''1'', ''2'', ''3'', ''4'', ''5'', ''6'', ''7'']"

definition late_task :: "(string \<times> int pyval) list" where
  "late_task = [(''STATUS'', PStr ''2''), (''deadline'', PStr ''2020-01-01T00:00:00+03:00'')]"

lemma get_task_statistics_tasks_response:
  "get_task_statistics pr (tasks_response raws) now user_id
     = stats_loop pr now zero_stats (map (\<lambda>raw. PDict (normalized raw)) raws)"
  by (rule get_task_statistics_response
        [where resp = "[(''result'', PDict [(''tasks'', PList (map PDict raws))])]"
           and r = "[(''tasks'', PList (map PDict raws))]"])
     (simp_all add: tasks_response_def)

lemma get_tasks_tasks_response:
  "get_tasks pr (tasks_response raws) user_id fp
     = Inr (PDict [(''tasks'', PList (map PDict (map normalized raws)))])"
proof -
  have "get_tasks pr (tasks_response raws) user_id fp
          = Inr (PDict [(''tasks'', PList (map (\<lambda>raw. PDict (normalized raw)) raws))])"
    by (rule get_tasks_response
          [where resp = "[(''result'', PDict [(''tasks'', PList (map PDict raws))])]"
             and r = "[(''tasks'', PList (map PDict raws))]"])
       (simp_all add: tasks_response_def)
  then show ?thesis
    by (simp add: comp_def)
qed

lemma get_tasks_bare_response:
  "get_tasks pr (bare_response tasks) user_id fp
     = Inr (PDict [(''tasks'', PList (map PDict tasks))])"
  by (simp add: get_tasks_def get_tasks_try_def make_request_def bare_response_def
      get_tasks_params_def py_contains_def)

lemmas status_eval =
  normalized_def task_fields_def stats_step_def task_status_def py_get_def py_int_def
  int_of_str_def str_strip_def str_lstrip_def str_rstrip_def is_int_space_def max_str_digits_def
  is_digit_def digit_value_def classify_def zero_stats_def deadline_overdue_def int_prims_def

text \<open>
  Claim C2. For every list of task records with status codes in \<open>1\<close> to \<open>7\<close> that
  \<^verbatim>\<open>get_tasks\<close> hands to \<^verbatim>\<open>get_task_statistics\<close>, every task, a rejected one (status \<open>7\<close>)
  too, adds one to \<^verbatim>\<open>total\<close>. A task is counted in exactly one of the five buckets,
  \<^verbatim>\<open>completed\<close> for \<open>5\<close>, \<^verbatim>\<open>in_progress\<close> for \<open>3\<close>, \<^verbatim>\<open>deferred\<close> for \<open>6\<close>, \<^verbatim>\<open>awaiting_control\<close>
  for \<open>4\<close> and \<^verbatim>\<open>pending\<close> for \<open>1\<close>, \<open>7\<close> and \<open>2\<close>, except a task of status \<open>2\<close> that is flagged
  overdue, which is counted in \<^verbatim>\<open>overdue\<close> and in no bucket. So \<^verbatim>\<open>total\<close> is the sum of the
  five buckets and the number of flagged tasks of status \<open>2\<close>; rejected tasks are not
  excluded.
\<close>

theorem task_statistics_buckets:
  assumes "get_tasks pr net user_id (statistics_filter user_id) = Inr (PDict resp)"
    and "map_of resp ''tasks'' = Some (PList (map PDict tasks))"
    and "list_all known_status tasks"
  shows "\<exists>s. get_task_statistics pr net now user_id = Inr s
          \<and> total_tasks s = length tasks
          \<and> completed s = count_tasks (status_is 5) tasks
          \<and> in_progress s = count_tasks (status_is 3) tasks
          \<and> deferred s = count_tasks (status_is 6) tasks
          \<and> awaiting_control s = count_tasks (status_is 4) tasks
          \<and> pending s
              = count_tasks (\<lambda>t. status_is 1 t \<or> status_is 7 t
                                  \<or> (status_is 2 t \<and> \<not> flagged pr now t)) tasks
          \<and> overdue s = count_tasks (\<lambda>t. flagged pr now t \<and> \<not> status_is 5 t) tasks
          \<and> supposedly_completed s = 0
          \<and> total_tasks s
              = completed s + in_progress s + pending s + deferred s + awaiting_control s
                + count_tasks (\<lambda>t. status_is 2 t \<and> flagged pr now t) tasks"
proof -
  have key: "''tasks'' \<in> fst ` set resp"
    using assms(2) by (metis domI dom_map_of_conv_image_fst)
  have run: "get_task_statistics pr net now user_id
               = stats_loop pr now zero_stats (map PDict tasks)"
    using assms(1,2) key
    by (simp add: get_task_statistics_def py_contains_def py_getitem_def py_iter_def)
  from stats_loop_counts [OF assms(3), of pr now zero_stats] obtain s where
    "stats_loop pr now zero_stats (map PDict tasks) = Inr s"
    "total_tasks s = length tasks"
    "completed s = count_tasks (status_is 5) tasks"
    "in_progress s = count_tasks (status_is 3) tasks"
    "deferred s = count_tasks (status_is 6) tasks"
    "awaiting_control s = count_tasks (status_is 4) tasks"
    "pending s = count_tasks (\<lambda>t. status_is 1 t \<or> status_is 7 t
                                  \<or> (status_is 2 t \<and> \<not> flagged pr now t)) tasks"
    "overdue s = count_tasks (\<lambda>t. flagged pr now t \<and> \<not> status_is 5 t) tasks"
    "supposedly_completed s = 0"
    by (auto simp: zero_stats_def)
  then show ?thesis
    using count_tasks_partition [OF assms(3), of pr now]
    by (simp add: run)
qed

text \<open>Seven tasks under \<^verbatim>\<open>result\<close>, one of each status: the listing normalises them, none
  is flagged, and \<^verbatim>\<open>total\<close> is the sum of the five buckets. A flagged task of status \<open>2\<close>
  at the top of the response: \<^verbatim>\<open>total\<close> is \<open>1\<close> and every bucket is empty.\<close>

theorem task_statistics_buckets_fixture:
  "list_all known_status (map normalized fixture_tasks)
   \<and> get_task_statistics int_prims (tasks_response fixture_tasks) (2026, 11, 4, 0) (Some ''10'')
     = Inr \<lparr>total_tasks = 7, completed = 1, in_progress = 1, overdue = 0, pending = 3,
            deferred = 1, awaiting_control = 1, supposedly_completed = 0\<rparr>
   \<and> known_status late_task
   \<and> flagged int_prims (2026, 11, 4, 0) late_task
   \<and> get_task_statistics int_prims (bare_response [late_task]) (2026, 11, 4, 0) (Some ''10'')
     = Inr \<lparr>total_tasks = 1, completed = 0, in_progress = 0, overdue = 1, pending = 0,
            deferred = 0, awaiting_control = 0, supposedly_completed = 0\<rparr>"
proof -
  have h: "list_all known_status (map normalized fixture_tasks)"
    by (simp add: known_status_def status_code_def fixture_tasks_def fixture_task_def
        normalized_def task_fields_def digit_value_def)
  have k: "known_status late_task"
    by (simp add: known_status_def status_code_def late_task_def digit_value_def)
  have p: "strptime_ymd (take 10 ''2020-01-01T00:00:00+03:00'') = Inr (2020, 1, 1)"
    by (simp add: strptime_ymd_def match_year_def match_month_def match_day_def nonzero_digit_def
        is_digit_def digit_value_def days_in_month_def is_leap_def)
  have f: "flagged int_prims (2026, 11, 4, 0) late_task"
    using p
    by (simp add: flagged_def field_or_none_def late_task_def deadline_overdue_def
        moment_less_def int_prims_def)
  have ev: "get_task_statistics int_prims (tasks_response fixture_tasks) (2026, 11, 4, 0)
              (Some ''10'')
     = Inr \<lparr>total_tasks = 7, completed = 1, in_progress = 1, overdue = 0, pending = 3,
            deferred = 1, awaiting_control = 1, supposedly_completed = 0\<rparr>"
    by (simp add: get_task_statistics_tasks_response fixture_tasks_def fixture_task_def status_eval)
  from task_statistics_buckets
    [where pr = int_prims and net = "bare_response [late_task]" and user_id = "Some ''10''"
       and resp = "[(''tasks'', PList (map PDict [late_task]))]"
       and tasks = "[late_task]" and now = "(2026, 11, 4, 0)",
     OF get_tasks_bare_response]
    k f
  have "\<exists>s. get_task_statistics int_prims (bare_response [late_task]) (2026, 11, 4, 0)
              (Some ''10'') = Inr s
          \<and> total_tasks s = 1 \<and> completed s = 0 \<and> in_progress s = 0 \<and> deferred s = 0
          \<and> awaiting_control s = 0 \<and> pending s = 0 \<and> overdue s = 1
          \<and> supposedly_completed s = 0"
    by (simp add: count_tasks_def status_is_def status_code_def late_task_def digit_value_def)
       blast
  then have late: "get_task_statistics int_prims (bare_response [late_task]) (2026, 11, 4, 0)
                     (Some ''10'')
     = Inr \<lparr>total_tasks = 1, completed = 0, in_progress = 0, overdue = 1, pending = 0,
            deferred = 0, awaiting_control = 0, supposedly_completed = 0\<rparr>"
    by auto
  from h ev k f late show ?thesis
    by blast
qed

text \<open>A single rejected task: \<^verbatim>\<open>total\<close> and \<^verbatim>\<open>pending\<close> are both \<open>1\<close>, where the
  specification excludes the task from every counter.\<close>

theorem rejected_task_counted:
  "get_task_statistics int_prims (tasks_response [fixture_task ''7'']) (2026, 11, 4, 0) (Some ''10'')
     = Inr \<lparr>total_tasks = 1, completed = 0, in_progress = 0, overdue = 0, pending = 1,
            deferred = 0, awaiting_control = 0, supposedly_completed = 0\<rparr>"
  by (simp add: get_task_statistics_tasks_response fixture_task_def status_eval)

text \<open>
  Claim C1. A task of status \<open>3\<close> whose deadline \<^verbatim>\<open>2020-01-01T00:00:00+03:00\<close> parses to a
  date before the clock and that has no closing date is to be counted in \<^verbatim>\<open>overdue\<close>. The
  code does not: \<^verbatim>\<open>get_tasks\<close> stores the deadline under \<^verbatim>\<open>DEADLINE\<close>, the statistics read
  \<^verbatim>\<open>deadline\<close>, and the counter stays \<open>0\<close>. The loop does count a record that holds the
  deadline under the lower-case key.
\<close>

theorem overdue_never_counted:
  "strptime_ymd (take 10 ''2020-01-01T00:00:00+03:00'') = Inr (2020, 1, 1)
   \<and> moment_less (2020, 1, 1, 0) (2026, 11, 4, 0)
   \<and> normalized (fixture_task ''3'')
     = [(''ID'', PStr ''1''), (''TITLE'', PNone), (''STATUS'', PStr ''3''),
        (''DEADLINE'', PStr ''2020-01-01T00:00:00+03:00''), (''PRIORITY'', PNone),
        (''RESPONSIBLE_ID'', PNone), (''CREATED_DATE'', PNone), (''DESCRIPTION'', PNone)]
   \<and> get_task_statistics int_prims (tasks_response [fixture_task ''3'']) (2026, 11, 4, 0) (Some ''10'')
     = Inr \<lparr>total_tasks = 1, completed = 0, in_progress = 1, overdue = 0, pending = 0,
            deferred = 0, awaiting_control = 0, supposedly_completed = 0\<rparr>
   \<and> stats_step int_prims (2026, 11, 4, 0) zero_stats
         (PDict [(''STATUS'', PStr ''3''), (''deadline'', PStr ''2020-01-01T00:00:00+03:00'')])
     = Inr \<lparr>total_tasks = 1, completed = 0, in_progress = 1, overdue = 1, pending = 0,
            deferred = 0, awaiting_control = 0, supposedly_completed = 0\<rparr>"
proof -
  have p: "strptime_ymd (take 10 ''2020-01-01T00:00:00+03:00'') = Inr (2020, 1, 1)"
    by (simp add: strptime_ymd_def match_year_def match_month_def match_day_def nonzero_digit_def
        is_digit_def digit_value_def days_in_month_def is_leap_def)
  have m: "moment_less (2020, 1, 1, 0) (2026, 11, 4, 0)"
    by (simp add: moment_less_def)
  have n: "normalized (fixture_task ''3'')
     = [(''ID'', PStr ''1''), (''TITLE'', PNone), (''STATUS'', PStr ''3''),
        (''DEADLINE'', PStr ''2020-01-01T00:00:00+03:00''), (''PRIORITY'', PNone),
        (''RESPONSIBLE_ID'', PNone), (''CREATED_DATE'', PNone), (''DESCRIPTION'', PNone)]"
    by (simp add: normalized_def task_fields_def fixture_task_def)
  have g: "get_task_statistics int_prims (tasks_response [fixture_task ''3'']) (2026, 11, 4, 0) (Some ''10'')
     = Inr \<lparr>total_tasks = 1, completed = 0, in_progress = 1, overdue = 0, pending = 0,
            deferred = 0, awaiting_control = 0, supposedly_completed = 0\<rparr>"
    by (simp add: get_task_statistics_tasks_response fixture_task_def status_eval)
  have s: "stats_step int_prims (2026, 11, 4, 0) zero_stats
         (PDict [(''STATUS'', PStr ''3''), (''deadline'', PStr ''2020-01-01T00:00:00+03:00'')])
     = Inr \<lparr>total_tasks = 1, completed = 0, in_progress = 1, overdue = 1, pending = 0,
            deferred = 0, awaiting_control = 0, supposedly_completed = 0\<rparr>"
    using p m
    by (simp add: stats_step_def task_status_def py_get_def py_int_def
        int_of_str_def str_strip_def str_lstrip_def str_rstrip_def is_int_space_def max_str_digits_def
      is_digit_def
        digit_value_def classify_def zero_stats_def deadline_overdue_def int_prims_def)
  from p m n g s show ?thesis by simp
qed

section \<open>The webhook address\<close>

text \<open>
  \<^verbatim>\<open>WebhookParser.parse_webhook_url\<close> (lines 117 to 149) cleans the address, hands it to
  \<^verbatim>\<open>urllib.parse.urlparse\<close> and reads the segments of the path.
  \<^verbatim>\<open>validate_webhook_url\<close> (lines 151 to 164) asks for four non-empty fields and for the
  vendor's marker in the portal address. The library function is an argument of both:
  the theorems hold for every function in its place. \<open>urlparse\<close> below follows the
  library's code on byte strings, for evaluating examples; the library's check of a host
  in square brackets is its argument.
\<close>

record url_parts =
  url_scheme :: string
  url_netloc :: string
  url_path :: string
  url_params :: string
  url_query :: string
  url_fragment :: string

definition is_alpha :: "char \<Rightarrow> bool" where
  "is_alpha c =
     (let n = (of_char c :: nat) in (65 \<le> n \<and> n \<le> 90) \<or> (97 \<le> n \<and> n \<le> 122))"

definition lower_char :: "char \<Rightarrow> char" where
  "lower_char c =
     (let n = (of_char c :: nat) in if 65 \<le> n \<and> n \<le> 90 then char_of (n + 32) else c)"

definition str_lower :: "string \<Rightarrow> string" where
  "str_lower s = map lower_char s"

text \<open>\<^verbatim>\<open>s.split(c)\<close>: the pieces between the occurrences of \<open>c\<close>, one piece more than
  occurrences. \<open>split_first\<close> is \<^verbatim>\<open>s.split(c, 1)\<close> of a string that holds \<open>c\<close>.\<close>

fun str_split :: "char \<Rightarrow> string \<Rightarrow> string list" where
  "str_split c [] = [[]]"
| "str_split c (x # xs) =
     (if x = c then [] # str_split c xs
      else (case str_split c xs of
              [] \<Rightarrow> [[x]]
            | piece # pieces \<Rightarrow> (x # piece) # pieces))"

definition split_first :: "char \<Rightarrow> string \<Rightarrow> string \<times> string" where
  "split_first c s = (takeWhile (\<lambda>x. x \<noteq> c) s, drop 1 (dropWhile (\<lambda>x. x \<noteq> c) s))"

definition c0_control_or_space :: "char \<Rightarrow> bool" where
  "c0_control_or_space c = ((of_char c :: nat) \<le> 32)"

definition unsafe_url_byte :: "char \<Rightarrow> bool" where
  "unsafe_url_byte c = (c = CHR 0x09 \<or> c = CHR 0x0D \<or> c = CHR 0x0A)"

definition scheme_char :: "char \<Rightarrow> bool" where
  "scheme_char c = (is_alpha c \<or> is_digit c \<or> c = CHR ''+'' \<or> c = CHR ''-'' \<or> c = CHR ''.'')"

definition netloc_delim :: "char \<Rightarrow> bool" where
  "netloc_delim c = (c = CHR ''/'' \<or> c = CHR ''?'' \<or> c = CHR ''#'')"

definition uses_params :: "string list" where
  "uses_params =
     ['''', ''ftp'', ''hdl'', ''prospero'', ''http'', ''imap'', ''https'', ''shttp'', ''rtsp'',
      ''rtsps'', ''rtspu'', ''sip'', ''sips'', ''mms'', ''sftp'', ''tel'']"

text \<open>\<^verbatim>\<open>urlsplit\<close>: scheme, network location, path, query, fragment.\<close>

definition urlsplit ::
  "(string \<Rightarrow> bool) \<Rightarrow> string \<Rightarrow> exc + (string \<times> string \<times> string \<times> string \<times> string)" where
  "urlsplit bracketed_host_ok url0 =
     (let url1 = filter (\<lambda>c. \<not> unsafe_url_byte c) (dropWhile c0_control_or_space url0);
          pre = takeWhile (\<lambda>c. c \<noteq> CHR '':'') url1;
          has_scheme = (CHR '':'' \<in> set url1 \<and> pre \<noteq> [] \<and> is_alpha (hd url1)
                        \<and> list_all scheme_char pre);
          scheme = (if has_scheme then str_lower pre else []);
          url2 = (if has_scheme then drop (length pre + 1) url1 else url1);
          has_netloc = (take 2 url2 = ''//'');
          netloc = (if has_netloc then takeWhile (\<lambda>c. \<not> netloc_delim c) (drop 2 url2) else []);
          url3 = (if has_netloc then dropWhile (\<lambda>c. \<not> netloc_delim c) (drop 2 url2) else url2);
          opens = (CHR ''['' \<in> set netloc);
          closes = (CHR '']'' \<in> set netloc)
      in if has_netloc \<and> opens \<noteq> closes then Inl (Exc ValueError ''Invalid IPv6 URL'')
         else if has_netloc \<and> opens \<and> closes
                 \<and> \<not> bracketed_host_ok (fst (split_first (CHR '']'') (snd (split_first (CHR ''['') netloc))))
         then Inl (Exc ValueError ''invalid bracketed host'')
         else
           (let frag = (if CHR ''#'' \<in> set url3 then split_first (CHR ''#'') url3 else (url3, []));
                qry = (if CHR ''?'' \<in> set (fst frag) then split_first (CHR ''?'') (fst frag)
                       else (fst frag, []))
            in Inr (scheme, netloc, fst qry, snd qry, snd frag)))"

text \<open>\<^verbatim>\<open>_splitparams\<close>, called on a path that holds a semicolon: the parameters follow the
  first semicolon of the last segment.\<close>

definition splitparams :: "string \<Rightarrow> string \<times> string" where
  "splitparams url =
     (let seg = rev (takeWhile (\<lambda>c. c \<noteq> CHR ''/'') (rev url));
          front = take (length url - length seg) url
      in if CHR '';'' \<in> set seg
         then (front @ fst (split_first (CHR '';'') seg), snd (split_first (CHR '';'') seg))
         else (url, []))"

definition urlparse :: "(string \<Rightarrow> bool) \<Rightarrow> string \<Rightarrow> exc + url_parts" where
  "urlparse bracketed_host_ok url =
     (case urlsplit bracketed_host_ok url of
        Inl e \<Rightarrow> Inl e
      | Inr (scheme, netloc, u, query, fragment) \<Rightarrow>
          (let pp = (if scheme \<in> set uses_params \<and> CHR '';'' \<in> set u then splitparams u
                     else (u, []))
           in Inr \<lparr>url_scheme = scheme, url_netloc = netloc, url_path = fst pp,
                   url_params = snd pp, url_query = query, url_fragment = fragment\<rparr>))"

text \<open>Line 129: the address without surrounding whitespace and trailing slashes.
  Line 132: the segments of the path.\<close>

definition clean_url :: "string \<Rightarrow> string" where
  "clean_url webhook_url = str_rstrip (\<lambda>c. c = CHR ''/'') (str_strip is_space webhook_url)"

definition path_parts :: "url_parts \<Rightarrow> string list" where
  "path_parts parsed = str_split (CHR ''/'') (str_strip (\<lambda>c. c = CHR ''/'') (url_path parsed))"

definition portal_url :: "url_parts \<Rightarrow> string" where
  "portal_url parsed = url_scheme parsed @ ''://'' @ url_netloc parsed"

text \<open>The body of the \<^verbatim>\<open>try\<close> block, and the function: whatever the block raises is
  raised again as a \<^verbatim>\<open>ValueError\<close>.\<close>

definition parse_webhook_url_try ::
  "(string \<Rightarrow> exc + url_parts) \<Rightarrow> string \<Rightarrow> exc + (string \<times> string) list" where
  "parse_webhook_url_try up webhook_url =
     (case up (clean_url webhook_url) of
        Inl e \<Rightarrow> Inl e
      | Inr parsed \<Rightarrow>
          (let parts = path_parts parsed in
           if length parts < 3 \<or> hd parts \<noteq> ''rest''
           then Inl (Exc ValueError ''bad webhook format'')
           else Inr [(''full_webhook_url'', clean_url webhook_url),
                     (''portal_url'', portal_url parsed),
                     (''user_id'', if 1 < length parts then parts ! 1 else []),
                     (''webhook_token'', if 2 < length parts then parts ! 2 else [])]))"

definition parse_webhook_url ::
  "(string \<Rightarrow> exc + url_parts) \<Rightarrow> string \<Rightarrow> exc + (string \<times> string) list" where
  "parse_webhook_url up webhook_url =
     (case parse_webhook_url_try up webhook_url of
        Inl e \<Rightarrow> Inl (Exc ValueError (''webhook parse error: '' @ exc_str e))
      | Inr r \<Rightarrow> Inr r)"

text \<open>\<^verbatim>\<open>validate_webhook_url\<close>: \<^verbatim>\<open>all\<close> of the four fields and the marker; \<^verbatim>\<open>False\<close> when
  anything raises.\<close>

definition validate_webhook_url :: "(string \<Rightarrow> exc + url_parts) \<Rightarrow> string \<Rightarrow> bool" where
  "validate_webhook_url up webhook_url =
     (case parse_webhook_url up webhook_url of
        Inl e \<Rightarrow> False
      | Inr result \<Rightarrow>
          (case (map_of result ''full_webhook_url'', map_of result ''portal_url'',
                 map_of result ''user_id'', map_of result ''webhook_token'') of
             (Some full, Some portal, Some uid, Some token) \<Rightarrow>
               full \<noteq> [] \<and> portal \<noteq> [] \<and> uid \<noteq> [] \<and> token \<noteq> []
               \<and> str_contains ''.bitrix24.'' portal
           | _ \<Rightarrow> False))"

lemma str_split_nonempty: "str_split c s \<noteq> []"
  by (induction s) (auto split: list.split)

lemma parse_webhook_url_raises:
  "up (clean_url url) = Inl e \<Longrightarrow>
   parse_webhook_url up url = Inl (Exc ValueError (''webhook parse error: '' @ exc_str e))"
  by (simp add: parse_webhook_url_def parse_webhook_url_try_def)

lemma parse_webhook_url_short:
  assumes "up (clean_url url) = Inr parsed"
    and "length (path_parts parsed) < 3 \<or> hd (path_parts parsed) \<noteq> ''rest''"
  shows "parse_webhook_url up url
           = Inl (Exc ValueError ''webhook parse error: bad webhook format'')"
  using assms by (auto simp: parse_webhook_url_def parse_webhook_url_try_def exc_str_def)

lemma parse_webhook_url_rest:
  assumes "up (clean_url url) = Inr parsed"
    and "path_parts parsed = ''rest'' # uid # token # extra"
  shows "parse_webhook_url up url
           = Inr [(''full_webhook_url'', clean_url url), (''portal_url'', portal_url parsed),
                  (''user_id'', uid), (''webhook_token'', token)]"
  using assms by (simp add: parse_webhook_url_def parse_webhook_url_try_def)

lemma validate_parsed:
  assumes "parse_webhook_url up url
           = Inr [(''full_webhook_url'', full), (''portal_url'', portal),
                  (''user_id'', uid), (''webhook_token'', token)]"
  shows "validate_webhook_url up url =
           (full \<noteq> [] \<and> portal \<noteq> [] \<and> uid \<noteq> [] \<and> token \<noteq> []
            \<and> str_contains ''.bitrix24.'' portal)"
  using assms by (simp add: validate_webhook_url_def)

text \<open>
  Claim C4. \<^verbatim>\<open>parse_webhook_url\<close> fails, always with a \<^verbatim>\<open>ValueError\<close>, when the library
  refuses the address and when the path has fewer than three segments or its first
  segment is not \<^verbatim>\<open>rest\<close>. In every other case it succeeds: the user id and the token are
  the second and the third segment, further segments are ignored, and the host is not
  looked at. The vendor's marker \<^verbatim>\<open>.bitrix24.\<close> is tested by \<^verbatim>\<open>validate_webhook_url\<close> alone,
  which answers \<^verbatim>\<open>False\<close> when the parse fails, when a field is empty and when the portal
  address lacks the marker.
\<close>

theorem parse_webhook_url_segments:
  "(\<forall>e. up (clean_url url) = Inl e \<longrightarrow>
       (\<exists>m. parse_webhook_url up url = Inl (Exc ValueError m))
       \<and> \<not> validate_webhook_url up url)
   \<and> (\<forall>parsed. up (clean_url url) = Inr parsed \<longrightarrow>
         (length (path_parts parsed) < 3 \<or> hd (path_parts parsed) \<noteq> ''rest'' \<longrightarrow>
            (\<exists>m. parse_webhook_url up url = Inl (Exc ValueError m))
            \<and> \<not> validate_webhook_url up url)
         \<and> (\<forall>uid token extra. path_parts parsed = ''rest'' # uid # token # extra \<longrightarrow>
              parse_webhook_url up url
                = Inr [(''full_webhook_url'', clean_url url), (''portal_url'', portal_url parsed),
                       (''user_id'', uid), (''webhook_token'', token)]
              \<and> validate_webhook_url up url
                = (clean_url url \<noteq> [] \<and> uid \<noteq> [] \<and> token \<noteq> []
                   \<and> str_contains ''.bitrix24.'' (portal_url parsed))))"
proof (intro conjI allI impI)
  fix e
  assume "up (clean_url url) = Inl e"
  then have r: "parse_webhook_url up url
                  = Inl (Exc ValueError (''webhook parse error: '' @ exc_str e))"
    by (rule parse_webhook_url_raises)
  then show "\<exists>m. parse_webhook_url up url = Inl (Exc ValueError m)"
    by blast
  from r show "\<not> validate_webhook_url up url"
    by (simp add: validate_webhook_url_def)
next
  fix parsed
  assume p: "up (clean_url url) = Inr parsed"
    and s: "length (path_parts parsed) < 3 \<or> hd (path_parts parsed) \<noteq> ''rest''"
  from p s have r: "parse_webhook_url up url
                      = Inl (Exc ValueError ''webhook parse error: bad webhook format'')"
    by (rule parse_webhook_url_short)
  then show "\<exists>m. parse_webhook_url up url = Inl (Exc ValueError m)"
    by blast
  from r show "\<not> validate_webhook_url up url"
    by (simp add: validate_webhook_url_def)
next
  fix parsed uid token extra
  assume p: "up (clean_url url) = Inr parsed"
    and s: "path_parts parsed = ''rest'' # uid # token # extra"
  from p s show r: "parse_webhook_url up url
                = Inr [(''full_webhook_url'', clean_url url), (''portal_url'', portal_url parsed),
                       (''user_id'', uid), (''webhook_token'', token)]"
    by (rule parse_webhook_url_rest)
  have "portal_url parsed \<noteq> []"
    by (simp add: portal_url_def)
  then show "validate_webhook_url up url
                = (clean_url url \<noteq> [] \<and> uid \<noteq> [] \<and> token \<noteq> []
                   \<and> str_contains ''.bitrix24.'' (portal_url parsed))"
    by (simp add: validate_parsed [OF r])
qed

text \<open>The library's check of a bracketed host plays no part in the examples.\<close>

definition no_bracketed_host :: "string \<Rightarrow> bool" where
  "no_bracketed_host h = False"

definition vendor_parts :: url_parts where
  "vendor_parts =
     \<lparr>url_scheme = ''https'', url_netloc = ''b24-r9de8y.bitrix24.ru'',
      url_path = ''/rest/10/abcdef123456/extra'', url_params = [], url_query = [],
      url_fragment = []\<rparr>"

definition short_parts :: url_parts where
  "short_parts =
     \<lparr>url_scheme = ''https'', url_netloc = ''b24-r9de8y.bitrix24.ru'',
      url_path = ''/rest/10'', url_params = [], url_query = [], url_fragment = []\<rparr>"

definition other_parts :: url_parts where
  "other_parts =
     \<lparr>url_scheme = ''https'', url_netloc = ''example.com'',
      url_path = ''/rest/10/abcdef123456'', url_params = [], url_query = [],
      url_fragment = []\<rparr>"

lemmas urlparse_eval =
  urlparse_def urlsplit_def splitparams_def split_first_def uses_params_def
  c0_control_or_space_def unsafe_url_byte_def scheme_char_def netloc_delim_def is_alpha_def
  is_digit_def lower_char_def str_lower_def no_bracketed_host_def

lemmas clean_eval =
  clean_url_def str_strip_def str_lstrip_def str_rstrip_def is_space_def

lemma urlparse_vendor:
  "urlparse no_bracketed_host ''https://b24-r9de8y.bitrix24.ru/rest/10/abcdef123456/extra''
     = Inr vendor_parts"
  by (simp add: urlparse_eval vendor_parts_def)

lemma urlparse_short:
  "urlparse no_bracketed_host ''https://b24-r9de8y.bitrix24.ru/rest/10'' = Inr short_parts"
  by (simp add: urlparse_eval short_parts_def)

lemma urlparse_other:
  "urlparse no_bracketed_host ''https://example.com/rest/10/abcdef123456'' = Inr other_parts"
  by (simp add: urlparse_eval other_parts_def)

lemma clean_url_vendor:
  "clean_url '' https://b24-r9de8y.bitrix24.ru/rest/10/abcdef123456/extra/''
     = ''https://b24-r9de8y.bitrix24.ru/rest/10/abcdef123456/extra''"
  by (simp add: clean_eval)

lemma clean_url_short:
  "clean_url ''https://b24-r9de8y.bitrix24.ru/rest/10''
     = ''https://b24-r9de8y.bitrix24.ru/rest/10''"
  by (simp add: clean_eval)

lemma clean_url_other:
  "clean_url ''https://example.com/rest/10/abcdef123456''
     = ''https://example.com/rest/10/abcdef123456''"
  by (simp add: clean_eval)

lemma path_parts_vendor: "path_parts vendor_parts = [''rest'', ''10'', ''abcdef123456'', ''extra'']"
  by (simp add: path_parts_def vendor_parts_def str_strip_def str_lstrip_def str_rstrip_def)

lemma path_parts_short: "path_parts short_parts = [''rest'', ''10'']"
  by (simp add: path_parts_def short_parts_def str_strip_def str_lstrip_def str_rstrip_def)

lemma path_parts_other: "path_parts other_parts = [''rest'', ''10'', ''abcdef123456'']"
  by (simp add: path_parts_def other_parts_def str_strip_def str_lstrip_def str_rstrip_def)



text \<open>An address of the vendor with a fourth segment, and one with two segments.\<close>

theorem parse_webhook_url_segments_witness:
  "urlparse no_bracketed_host
       (clean_url '' https://b24-r9de8y.bitrix24.ru/rest/10/abcdef123456/extra/'')
     = Inr vendor_parts
   \<and> path_parts vendor_parts = [''rest'', ''10'', ''abcdef123456'', ''extra'']
   \<and> parse_webhook_url (urlparse no_bracketed_host)
         '' https://b24-r9de8y.bitrix24.ru/rest/10/abcdef123456/extra/''
     = Inr [(''full_webhook_url'', ''https://b24-r9de8y.bitrix24.ru/rest/10/abcdef123456/extra''),
            (''portal_url'', ''https://b24-r9de8y.bitrix24.ru''), (''user_id'', ''10''),
            (''webhook_token'', ''abcdef123456'')]
   \<and> validate_webhook_url (urlparse no_bracketed_host)
         '' https://b24-r9de8y.bitrix24.ru/rest/10/abcdef123456/extra/''
   \<and> urlparse no_bracketed_host (clean_url ''https://b24-r9de8y.bitrix24.ru/rest/10'')
     = Inr short_parts
   \<and> length (path_parts short_parts) < 3
   \<and> (\<exists>m. parse_webhook_url (urlparse no_bracketed_host) ''https://b24-r9de8y.bitrix24.ru/rest/10''
            = Inl (Exc ValueError m))
   \<and> \<not> validate_webhook_url (urlparse no_bracketed_host) ''https://b24-r9de8y.bitrix24.ru/rest/10''"
proof -
  have a: "urlparse no_bracketed_host
             (clean_url '' https://b24-r9de8y.bitrix24.ru/rest/10/abcdef123456/extra/'')
           = Inr vendor_parts"
    by (simp only: clean_url_vendor urlparse_vendor)
  have b: "urlparse no_bracketed_host (clean_url ''https://b24-r9de8y.bitrix24.ru/rest/10'')
           = Inr short_parts"
    by (simp only: clean_url_short urlparse_short)
  have m: "str_contains ''.bitrix24.'' (portal_url vendor_parts)"
    by (simp add: portal_url_def vendor_parts_def)
  have pu: "portal_url vendor_parts = ''https://b24-r9de8y.bitrix24.ru''"
    by (simp add: portal_url_def vendor_parts_def)
  note one = parse_webhook_url_segments [of "urlparse no_bracketed_host"
        "'' https://b24-r9de8y.bitrix24.ru/rest/10/abcdef123456/extra/''"]
  note two = parse_webhook_url_segments [of "urlparse no_bracketed_host"
        "''https://b24-r9de8y.bitrix24.ru/rest/10''"]
  from one a path_parts_vendor
  have ok: "parse_webhook_url (urlparse no_bracketed_host)
         '' https://b24-r9de8y.bitrix24.ru/rest/10/abcdef123456/extra/''
     = Inr [(''full_webhook_url'',
             clean_url '' https://b24-r9de8y.bitrix24.ru/rest/10/abcdef123456/extra/''),
            (''portal_url'', portal_url vendor_parts), (''user_id'', ''10''),
            (''webhook_token'', ''abcdef123456'')]
     \<and> validate_webhook_url (urlparse no_bracketed_host)
         '' https://b24-r9de8y.bitrix24.ru/rest/10/abcdef123456/extra/''
       = (clean_url '' https://b24-r9de8y.bitrix24.ru/rest/10/abcdef123456/extra/'' \<noteq> []
          \<and> ''10'' \<noteq> [] \<and> ''abcdef123456'' \<noteq> []
          \<and> str_contains ''.bitrix24.'' (portal_url vendor_parts))"
    by blast
  have short: "length (path_parts short_parts) < 3"
    by (simp add: path_parts_short)
  from two b short
  have bad: "(\<exists>m. parse_webhook_url (urlparse no_bracketed_host)
                   ''https://b24-r9de8y.bitrix24.ru/rest/10'' = Inl (Exc ValueError m))
     \<and> \<not> validate_webhook_url (urlparse no_bracketed_host)
           ''https://b24-r9de8y.bitrix24.ru/rest/10''"
    by blast
  from ok m have good: "parse_webhook_url (urlparse no_bracketed_host)
         '' https://b24-r9de8y.bitrix24.ru/rest/10/abcdef123456/extra/''
     = Inr [(''full_webhook_url'', ''https://b24-r9de8y.bitrix24.ru/rest/10/abcdef123456/extra''),
            (''portal_url'', ''https://b24-r9de8y.bitrix24.ru''), (''user_id'', ''10''),
            (''webhook_token'', ''abcdef123456'')]
     \<and> validate_webhook_url (urlparse no_bracketed_host)
         '' https://b24-r9de8y.bitrix24.ru/rest/10/abcdef123456/extra/''"
    by (simp add: clean_url_vendor pu)
  from a path_parts_vendor good b short bad show ?thesis
    by blast
qed

text \<open>An address whose host lacks the marker: the parse succeeds, where the
  specification has it fail.\<close>

theorem parse_webhook_url_any_host:
  "\<not> str_contains ''.bitrix24.'' ''example.com''
   \<and> parse_webhook_url (urlparse no_bracketed_host) ''https://example.com/rest/10/abcdef123456''
     = Inr [(''full_webhook_url'', ''https://example.com/rest/10/abcdef123456''),
            (''portal_url'', ''https://example.com''), (''user_id'', ''10''),
            (''webhook_token'', ''abcdef123456'')]
   \<and> \<not> validate_webhook_url (urlparse no_bracketed_host)
           ''https://example.com/rest/10/abcdef123456''"
proof -
  have a: "urlparse no_bracketed_host (clean_url ''https://example.com/rest/10/abcdef123456'')
           = Inr other_parts"
    by (simp only: clean_url_other urlparse_other)
  have pu: "portal_url other_parts = ''https://example.com''"
    by (simp add: portal_url_def other_parts_def)
  have r: "parse_webhook_url (urlparse no_bracketed_host) ''https://example.com/rest/10/abcdef123456''
     = Inr [(''full_webhook_url'', ''https://example.com/rest/10/abcdef123456''),
            (''portal_url'', ''https://example.com''), (''user_id'', ''10''),
            (''webhook_token'', ''abcdef123456'')]"
    using parse_webhook_url_rest
      [where up = "urlparse no_bracketed_host"
         and url = "''https://example.com/rest/10/abcdef123456''", OF a path_parts_other]
    by (simp add: clean_url_other pu)
  have n: "\<not> str_contains ''.bitrix24.'' ''example.com''"
    by simp
  have v: "\<not> validate_webhook_url (urlparse no_bracketed_host)
           ''https://example.com/rest/10/abcdef123456''"
    by (simp add: validate_parsed [OF r])
  from n r v show ?thesis by simp
qed

end
